theory Spec2Isabelle
  imports Main
begin

section \<open>Python values the agents handle\<close>

text \<open>
  A Python \<open>str\<close> is modelled as a \<open>string\<close>: a list of characters, each standing for
  one code point below 256. The character classes below are the ones Python assigns to
  these code points (\<open>str.isspace\<close> for \<open>strip\<close>, \<open>split\<close>; \<open>\w\<close> of the \<open>re\<close>
  module for a \<open>str\<close> pattern).

  An exception is a value: its class and the text \<open>str(e)\<close> gives. Every \<open>raise\<close> of
  the source is an \<open>Inl\<close> of the model, every \<open>return\<close> an \<open>Inr\<close>.
\<close>

datatype exn_class =
  RequestException | JSONDecodeError | ValueError | IndexError | KeyError
  | AttributeError | TypeError | OSError | DatabaseError

datatype py_exn = PyExn exn_class string

fun exn_str :: "py_exn \<Rightarrow> string" where
  "exn_str (PyExn k msg) = msg"

definition is_space :: "char \<Rightarrow> bool" where
  "is_space c = (of_char c \<in> {9, 10, 11, 12, 13, 28, 29, 30, 31, 32, 133, 160 :: nat})"

definition is_word :: "char \<Rightarrow> bool" where
  "is_word c =
     (let n = (of_char c :: nat) in
        (48 \<le> n \<and> n \<le> 57) \<or> (65 \<le> n \<and> n \<le> 90) \<or> n = 95 \<or> (97 \<le> n \<and> n \<le> 122)
        \<or> n \<in> {170, 178, 179, 181, 185, 186, 188, 189, 190}
        \<or> (192 \<le> n \<and> n \<le> 214) \<or> (216 \<le> n \<and> n \<le> 246) \<or> 248 \<le> n)"

definition py_strip :: "string \<Rightarrow> string" where
  "py_strip s = rev (dropWhile is_space (rev (dropWhile is_space s)))"

text \<open>\<open>sub in s\<close> on two strings: \<open>sub\<close> occurs in \<open>s\<close> as a contiguous run.\<close>

fun starts_with :: "string \<Rightarrow> string \<Rightarrow> bool" where
  "starts_with [] s = True"
| "starts_with (c # cs) [] = False"
| "starts_with (c # cs) (d # ds) = (c = d \<and> starts_with cs ds)"

fun py_in :: "string \<Rightarrow> string \<Rightarrow> bool" where
  "py_in sub [] = (sub = [])"
| "py_in sub (c # cs) = (starts_with sub (c # cs) \<or> py_in sub cs)"

text \<open>\<open>s.split()\<close>: the maximal runs of characters that are not whitespace.\<close>

function py_split :: "string \<Rightarrow> string list" where
  "py_split s =
     (let s' = dropWhile is_space s in
        if s' = [] then []
        else takeWhile (\<lambda>c. \<not> is_space c) s' # py_split (dropWhile (\<lambda>c. \<not> is_space c) s'))"
  by pat_completeness auto
termination
proof (relation "measure length")
  show "wf (measure length)" by simp
next
  fix s s' :: string
  assume s': "s' = dropWhile is_space s" and ne: "s' \<noteq> []"
  from s' ne have "\<not> is_space (hd s')"
    using hd_dropWhile [of is_space s] by simp
  with ne have "length (dropWhile (\<lambda>c. \<not> is_space c) s') < length s'"
    by (cases s') (simp_all add: le_imp_less_Suc length_dropWhile_le)
  moreover from s' have "length s' \<le> length s"
    by (simp add: length_dropWhile_le)
  ultimately show "(dropWhile (\<lambda>c. \<not> is_space c) s', s) \<in> measure length"
    by simp
qed

text \<open>\<open>xs[-1]\<close>: the last element; \<open>IndexError\<close> on the empty list.\<close>

definition py_last :: "'a list \<Rightarrow> py_exn + 'a" where
  "py_last xs =
     (if xs = [] then Inl (PyExn IndexError ''list index out of range'') else Inr (last xs))"

text \<open>Sequencing of steps that may raise: the first exception ends the block.\<close>

definition and_then :: "py_exn + 'a \<Rightarrow> ('a \<Rightarrow> py_exn + 'b) \<Rightarrow> py_exn + 'b" where
  "and_then r f = (case r of Inl e \<Rightarrow> Inl e | Inr v \<Rightarrow> f v)"

text \<open>\<open>s.replace(old, new)\<close>: the occurrences of \<open>old\<close>, found from the left.\<close>

function py_replace :: "string \<Rightarrow> string \<Rightarrow> string \<Rightarrow> string" where
  "py_replace old new [] = (if old = [] then new else [])"
| "py_replace old new (c # cs) =
     (if old = [] then new @ c # py_replace old new cs
      else if starts_with old (c # cs)
           then new @ py_replace old new (drop (length old) (c # cs))
           else c # py_replace old new cs)"
  by pat_completeness auto
termination
  by (relation "measure (\<lambda>(old, new, s). length s)") (auto simp: Suc_le_eq diff_less_Suc)

text \<open>\<open>str(n)\<close> of an integer: its decimal digits.\<close>

definition digit_char :: "nat \<Rightarrow> char" where
  "digit_char d = ''0123456789abcdef'' ! d"

function show_nat :: "nat \<Rightarrow> string" where
  "show_nat n = (if n < 10 then [digit_char n] else show_nat (n div 10) @ [digit_char (n mod 10)])"
  by pat_completeness auto
termination
  by (relation "measure id") auto

definition show_int :: "int \<Rightarrow> string" where
  "show_int i = (if i < 0 then CHR ''-'' # show_nat (nat (- i)) else show_nat (nat i))"

text \<open>
  \<open>dict(pairs)\<close>: the items in the order their keys first occur; a key that occurs again
  keeps its place and takes the later value.
\<close>

fun dict_set :: "('k \<times> 'v) list \<Rightarrow> 'k \<Rightarrow> 'v \<Rightarrow> ('k \<times> 'v) list" where
  "dict_set [] k v = [(k, v)]"
| "dict_set ((k', v') # items) k v =
     (if k' = k then (k, v) # items else (k', v') # dict_set items k v)"

definition py_dict :: "('k \<times> 'v) list \<Rightarrow> ('k \<times> 'v) list" where
  "py_dict pairs = foldl (\<lambda>d (k, v). dict_set d k v) [] pairs"

subsection \<open>Decoded JSON\<close>

text \<open>
  What \<open>response.json()\<close> returns. A float is kept as the text \<open>json.dumps\<close> writes for
  it; an object is the list of its items (looked up by key).
\<close>

datatype json =
  JNull | JBool bool | JInt int | JReal string | JStr string
  | JArr "json list" | JObj "(string \<times> json) list"

fun type_name :: "json \<Rightarrow> string" where
  "type_name JNull = ''NoneType''"
| "type_name (JBool b) = ''bool''"
| "type_name (JInt i) = ''int''"
| "type_name (JReal r) = ''float''"
| "type_name (JStr s) = ''str''"
| "type_name (JArr xs) = ''list''"
| "type_name (JObj kvs) = ''dict''"

definition quoted :: "string \<Rightarrow> string" where
  "quoted s = [CHR 0x27] @ s @ [CHR 0x27]"

definition no_attribute :: "json \<Rightarrow> string \<Rightarrow> py_exn" where
  "no_attribute v a =
     PyExn AttributeError (quoted (type_name v) @ '' object has no attribute '' @ quoted a)"

definition not_subscriptable :: "json \<Rightarrow> py_exn" where
  "not_subscriptable v = PyExn TypeError (quoted (type_name v) @ '' object is not subscriptable'')"

text \<open>\<open>v.get(k, d)\<close>: defined on a dict only.\<close>

fun py_get :: "json \<Rightarrow> string \<Rightarrow> json \<Rightarrow> py_exn + json" where
  "py_get (JObj kvs) k d = Inr (case map_of kvs k of Some v \<Rightarrow> v | None \<Rightarrow> d)"
| "py_get v k d = Inl (no_attribute v ''get'')"

text \<open>\<open>v[0]\<close>. A decoded JSON object has string keys only, so \<open>0\<close> is never a key.\<close>

fun py_index0 :: "json \<Rightarrow> py_exn + json" where
  "py_index0 (JArr []) = Inl (PyExn IndexError ''list index out of range'')"
| "py_index0 (JArr (x # xs)) = Inr x"
| "py_index0 (JStr []) = Inl (PyExn IndexError ''string index out of range'')"
| "py_index0 (JStr (c # cs)) = Inr (JStr [c])"
| "py_index0 (JObj kvs) = Inl (PyExn KeyError ''0'')"
| "py_index0 v = Inl (not_subscriptable v)"

text \<open>\<open>v[k]\<close> for a string literal \<open>k\<close>; \<open>str(KeyError(k))\<close> is the quoted key.\<close>

fun py_item :: "json \<Rightarrow> string \<Rightarrow> py_exn + json" where
  "py_item (JObj kvs) k =
     (case map_of kvs k of Some v \<Rightarrow> Inr v | None \<Rightarrow> Inl (PyExn KeyError (quoted k)))"
| "py_item (JArr xs) k =
     Inl (PyExn TypeError ''list indices must be integers or slices, not str'')"
| "py_item (JStr s) k =
     Inl (PyExn TypeError (''string indices must be integers, not '' @ quoted ''str''))"
| "py_item v k = Inl (not_subscriptable v)"

text \<open>\<open>v.strip()\<close>: defined on a \<open>str\<close> only.\<close>

fun py_strip_method :: "json \<Rightarrow> py_exn + string" where
  "py_strip_method (JStr s) = Inr (py_strip s)"
| "py_strip_method v = Inl (no_attribute v ''strip'')"

subsection \<open>HTTP replies\<close>

text \<open>
  What \<open>requests.post\<close> gives back is an input of the model: either the exception it
  raises (no connection, timeout) or a response, of which the agents read the status
  code, the body text and the decoded body (\<open>response.json()\<close>, which raises when the body
  is not JSON).
\<close>

record http_response =
  status_code :: int
  response_text :: string
  response_json :: "py_exn + json"

type_synonym reply = "py_exn + http_response"

text \<open>
  The expression three of the agents apply to the decoded body of the generation endpoint:
  \<open>resp_json.get('choices', [{}])[0].get('message', {}).get('content', '').strip()\<close>.
\<close>

definition first_choice_content :: "json \<Rightarrow> py_exn + string" where
  "first_choice_content resp_json =
     and_then (py_get resp_json ''choices'' (JArr [JObj []])) (\<lambda>choices.
     and_then (py_index0 choices) (\<lambda>choice.
     and_then (py_get choice ''message'' (JObj [])) (\<lambda>message.
     and_then (py_get message ''content'' (JStr [])) (\<lambda>content.
       py_strip_method content))))"

section \<open>The file agent (openclaw.py)\<close>

subsection \<open>read_local_file\<close>

text \<open>
  The file system is an input: what \<open>open(filepath, 'r')\<close> followed by \<open>f.read()\<close>
  does at a path, either the content or the exception raised.
\<close>

type_synonym file_system = "string \<Rightarrow> py_exn + string"

text \<open>The body of the \<open>try\<close> block: \<open>with open(filepath, 'r') as f: return f.read()\<close>.\<close>

definition open_and_read :: "file_system \<Rightarrow> string \<Rightarrow> py_exn + string" where
  "open_and_read fs filepath = fs filepath"

text \<open>
  \<open>read_local_file\<close>: the \<open>except Exception as e\<close> clause turns every exception of the
  body into the returned text \<open>f"Error reading file: {e}"\<close>. The result is what the call
  does to its caller: \<open>Inr\<close> a returned string, \<open>Inl\<close> a propagated exception.
\<close>

definition read_local_file :: "file_system \<Rightarrow> string \<Rightarrow> py_exn + string" where
  "read_local_file fs filepath =
     (case open_and_read fs filepath of
        Inr content \<Rightarrow> Inr content
      | Inl e \<Rightarrow> Inr (''Error reading file: '' @ exn_str e))"

subsection \<open>ask_gateway\<close>

text \<open>
  The body of the \<open>try\<close> block of \<open>ask_gateway\<close>: status 200 returns \<open>True\<close>; any other
  status decodes the body and reads its \<open>detail\<close> for the message, then returns \<open>False\<close>.
\<close>

definition ask_gateway_try :: "reply \<Rightarrow> py_exn + bool" where
  "ask_gateway_try posted =
     and_then posted (\<lambda>response.
       if status_code response = 200 then Inr True
       else and_then (response_json response) (\<lambda>body.
              and_then (py_get body ''detail'' JNull) (\<lambda>detail. Inr False)))"

text \<open>
  \<open>ask_gateway(prompt)\<close>: the gateway maps the posted prompt to its reply; the
  \<open>except Exception\<close> clause returns \<open>False\<close>.
\<close>

definition ask_gateway :: "(string \<Rightarrow> reply) \<Rightarrow> string \<Rightarrow> bool" where
  "ask_gateway gateway prompt =
     (case ask_gateway_try (gateway prompt) of Inr allowed \<Rightarrow> allowed | Inl e \<Rightarrow> False)"

subsection \<open>The proposed action\<close>

text \<open>
  Lines 61 to 65 of \<open>run_agent\<close>: the content of the first choice of the decoded body,
  stripped; an empty one raises \<open>ValueError\<close>. The status code is not read. (The text of
  that \<open>ValueError\<close> ends with the printed form of the body; it is only ever printed, and
  the model keeps its fixed part.)
\<close>

definition bifrost_action :: "reply \<Rightarrow> py_exn + string" where
  "bifrost_action posted =
     and_then posted (\<lambda>response.
     and_then (response_json response) (\<lambda>resp_json.
     and_then (first_choice_content resp_json) (\<lambda>action.
       if action = [] then Inl (PyExn ValueError ''Empty or malformed response from Bifrost: '')
       else Inr action)))"

text \<open>
  \<open>re.search(r'([\w/.-]+\.\w+)', task)\<close>. At a start position the class
  \<open>[\w/.-]+\<close> first takes the longest run it can, then gives characters back one at a
  time (never its first) until a dot followed by a word character comes next; \<open>\w+\<close>
  then takes all the word characters there. \<open>match_at n s\<close> tries the class at lengths
  \<open>n\<close>, \<open>n - 1\<close>, ..., 1 and returns the matched text (group 1 is the whole match).
\<close>

definition is_path_char :: "char \<Rightarrow> bool" where
  "is_path_char c = (is_word c \<or> c = CHR ''/'' \<or> c = CHR ''.'' \<or> c = CHR ''-'')"

fun match_at :: "nat \<Rightarrow> string \<Rightarrow> string option" where
  "match_at 0 s = None"
| "match_at (Suc n) s =
     (case drop (Suc n) s of
        [] \<Rightarrow> match_at n s
      | c # rest \<Rightarrow>
          if c = CHR ''.'' \<and> takeWhile is_word rest \<noteq> []
          then Some (take (Suc n) s @ c # takeWhile is_word rest)
          else match_at n s)"

definition match_here :: "string \<Rightarrow> string option" where
  "match_here s = match_at (length (takeWhile is_path_char s)) s"

text \<open>The search tries the start positions from left to right.\<close>

fun re_search_filepath :: "string \<Rightarrow> string option" where
  "re_search_filepath [] = None"
| "re_search_filepath (c # cs) =
     (case match_here (c # cs) of
        Some m \<Rightarrow> Some m
      | None \<Rightarrow> re_search_filepath cs)"

text \<open>
  The \<open>except\<close> clause, lines 70 and 71:
  \<open>action = match.group(1) if match else (task.split()[-1] if task else "")\<close>.
\<close>

definition fallback_action :: "string \<Rightarrow> py_exn + string" where
  "fallback_action task =
     (case re_search_filepath task of
        Some m \<Rightarrow> Inr m
      | None \<Rightarrow> if task \<noteq> [] then py_last (py_split task) else Inr [])"

text \<open>The whole \<open>try\<close> statement: the action of the reply, or else the fallback's.\<close>

definition propose_action :: "reply \<Rightarrow> string \<Rightarrow> py_exn + string" where
  "propose_action posted task =
     (case bifrost_action posted of
        Inr action \<Rightarrow> Inr action
      | Inl e \<Rightarrow> fallback_action task)"

subsection \<open>run_agent of the file agent\<close>

text \<open>
  A run is observed through the calls it makes to the policy gateway and to its tool, in
  order: the text submitted for validation with the gateway's reply, and the text executed
  with what the tool gave back. Console output is not modelled.
\<close>

datatype event =
  Validate string reply
  | Execute string "py_exn + string"

text \<open>
  \<open>run_agent(task)\<close> of the file agent. The inputs besides the task are the reply of the
  generation endpoint, the gateway and the file system. The result is the run's events and
  how it ended: \<open>Inr ()\<close> a return, \<open>Inl e\<close> an exception that leaves \<open>run_agent\<close>.
\<close>

definition openclaw_run_agent :: "reply \<Rightarrow> (string \<Rightarrow> reply) \<Rightarrow> file_system \<Rightarrow> string
    \<Rightarrow> event list \<times> (py_exn + unit)" where
  "openclaw_run_agent bifrost gateway fs task =
     (case propose_action bifrost task of
        Inl e \<Rightarrow> ([], Inl e)
      | Inr action \<Rightarrow>
          if py_in ''I can only read'' action then ([], Inr ())
          else
            let filepath_to_read = action;
                gateway_prompt = ''read file '' @ filepath_to_read;
                is_allowed = ask_gateway gateway gateway_prompt
            in if \<not> is_allowed then ([Validate gateway_prompt (gateway gateway_prompt)], Inr ())
               else
                 (case read_local_file fs filepath_to_read of
                    Inl e \<Rightarrow>
                      ([Validate gateway_prompt (gateway gateway_prompt),
                        Execute filepath_to_read (Inl e)], Inl e)
                  | Inr content \<Rightarrow>
                      ([Validate gateway_prompt (gateway gateway_prompt),
                        Execute filepath_to_read (Inr content)], Inr ())))"

section \<open>The SQL agent (sql_guardian.py)\<close>

subsection \<open>execute_query\<close>

text \<open>
  A value of a result row as \<open>sqlite3\<close> hands it over: \<open>None\<close>, an \<open>int\<close>, a \<open>float\<close>
  (kept as the text \<open>json.dumps\<close> writes for it), a \<open>str\<close>, or \<open>bytes\<close> for a BLOB.
\<close>

datatype sql_value = SqlNull | SqlInt int | SqlReal string | SqlText string | SqlBlob string

text \<open>
  The database is an input: what happens to a query. Either \<open>sqlite3.connect\<close> raises, or
  \<open>cursor.execute\<close> (or \<open>fetchall\<close>) raises, or there is a result: the column names of
  \<open>cursor.description\<close> (\<open>None\<close> for a statement without result columns) and the rows.
\<close>

datatype db_outcome =
  Connect_Raises py_exn
  | Execute_Raises py_exn
  | Result_Set "string list option" "sql_value list list"

text \<open>
  \<open>json.dumps(formatted_results, indent=2)\<close>, with the default \<open>ensure_ascii\<close>: a string
  is written between double quotes, with the escapes of the \<open>json\<close> module for \<open>"\<close>, \<open>\\<close>
  and every character outside the range from space to \<open>~\<close>.
\<close>

definition hex4 :: "nat \<Rightarrow> string" where
  "hex4 n = [digit_char (n div 4096 mod 16), digit_char (n div 256 mod 16),
             digit_char (n div 16 mod 16), digit_char (n mod 16)]"

definition escape_char :: "char \<Rightarrow> string" where
  "escape_char c =
     (let n = (of_char c :: nat) in
        if c = CHR 0x22 then [CHR 0x5C, CHR 0x22]
        else if c = CHR 0x5C then [CHR 0x5C, CHR 0x5C]
        else if n = 10 then [CHR 0x5C, CHR ''n'']
        else if n = 13 then [CHR 0x5C, CHR ''r'']
        else if n = 9 then [CHR 0x5C, CHR ''t'']
        else if n = 12 then [CHR 0x5C, CHR ''f'']
        else if n = 8 then [CHR 0x5C, CHR ''b'']
        else if 32 \<le> n \<and> n \<le> 126 then [c]
        else [CHR 0x5C, CHR ''u''] @ hex4 n)"

definition dumps_str :: "string \<Rightarrow> string" where
  "dumps_str s = [CHR 0x22] @ concat (map escape_char s) @ [CHR 0x22]"

fun dumps_value :: "sql_value \<Rightarrow> py_exn + string" where
  "dumps_value SqlNull = Inr ''null''"
| "dumps_value (SqlInt i) = Inr (show_int i)"
| "dumps_value (SqlReal r) = Inr r"
| "dumps_value (SqlText s) = Inr (dumps_str s)"
| "dumps_value (SqlBlob b) = Inl (PyExn TypeError ''Object of type bytes is not JSON serializable'')"

text \<open>The texts of a list of values, or the first exception.\<close>

fun all_or_raise :: "(py_exn + 'a) list \<Rightarrow> py_exn + 'a list" where
  "all_or_raise [] = Inr []"
| "all_or_raise (r # rs) =
     and_then r (\<lambda>v. and_then (all_or_raise rs) (\<lambda>vs. Inr (v # vs)))"

text \<open>\<open>sep.join(parts)\<close>.\<close>

fun join :: "string \<Rightarrow> string list \<Rightarrow> string" where
  "join sep [] = []"
| "join sep [p] = p"
| "join sep (p # q # ps) = p @ sep @ join sep (q # ps)"

definition newline :: string where
  "newline = [CHR 0x0A]"

definition dumps_item :: "string \<times> sql_value \<Rightarrow> py_exn + string" where
  "dumps_item kv =
     and_then (dumps_value (snd kv)) (\<lambda>v. Inr (''    '' @ dumps_str (fst kv) @ '': '' @ v))"

definition dumps_row :: "(string \<times> sql_value) list \<Rightarrow> py_exn + string" where
  "dumps_row items =
     (if items = [] then Inr ''  {}''
      else and_then (all_or_raise (map dumps_item items)) (\<lambda>parts.
             Inr (''  {'' @ newline @ join ('','' @ newline) parts @ newline @ ''  }'')))"

definition json_dumps :: "(string \<times> sql_value) list list \<Rightarrow> py_exn + string" where
  "json_dumps formatted_results =
     (if formatted_results = [] then Inr ''[]''
      else and_then (all_or_raise (map dumps_row formatted_results)) (\<lambda>parts.
             Inr (''['' @ newline @ join ('','' @ newline) parts @ newline @ '']'')))"

text \<open>\<open>[dict(zip(columns, row)) for row in results]\<close>.\<close>

definition format_results :: "string list \<Rightarrow> sql_value list list \<Rightarrow> (string \<times> sql_value) list list" where
  "format_results columns results = map (\<lambda>row. py_dict (zip columns row)) results"

text \<open>The body of the \<open>try\<close> block of \<open>execute_query\<close>, after the connection is open.\<close>

text \<open>
  \<open>[description[0] for description in cursor.description] if cursor.description else []\<close>.
\<close>

definition columns_of :: "string list option \<Rightarrow> string list" where
  "columns_of description = (case description of None \<Rightarrow> [] | Some names \<Rightarrow> names)"

fun execute_query_try :: "db_outcome \<Rightarrow> py_exn + string" where
  "execute_query_try (Connect_Raises e) = Inl e"
| "execute_query_try (Execute_Raises e) = Inl e"
| "execute_query_try (Result_Set description results) =
     (let columns = columns_of description
      in if results = [] then Inr ''Query executed successfully. No data returned.''
         else json_dumps (format_results columns results))"

text \<open>
  \<open>execute_query(query)\<close>: \<open>sqlite3.connect\<close> stands before the \<open>try\<close>, so its exception
  leaves the function; every exception of the body becomes the text
  \<open>f"Database Error: {e}"\<close>.
\<close>

definition execute_query :: "(string \<Rightarrow> db_outcome) \<Rightarrow> string \<Rightarrow> py_exn + string" where
  "execute_query database query =
     (case database query of
        Connect_Raises e \<Rightarrow> Inl e
      | outcome \<Rightarrow>
          (case execute_query_try outcome of
             Inr returned \<Rightarrow> Inr returned
           | Inl e \<Rightarrow> Inr (''Database Error: '' @ exn_str e)))"

subsection \<open>generate_sql\<close>

definition code_fence :: string where
  "code_fence = [CHR 0x60, CHR 0x60, CHR 0x60]"

text \<open>The body of the \<open>try\<close> block; \<open>None\<close> is Python's \<open>None\<close>.\<close>

definition generate_sql_try :: "reply \<Rightarrow> py_exn + string option" where
  "generate_sql_try posted =
     and_then posted (\<lambda>response.
       if status_code response = 200 then
         and_then (response_json response) (\<lambda>body.
         and_then (py_item body ''choices'') (\<lambda>choices.
         and_then (py_index0 choices) (\<lambda>choice.
         and_then (py_item choice ''message'') (\<lambda>message.
         and_then (py_item message ''content'') (\<lambda>content.
         and_then (py_strip_method content) (\<lambda>query.
           Inr (Some (py_strip (py_replace code_fence [] (py_replace (code_fence @ ''sql'') [] query))))))))))
       else Inr None)"

definition generate_sql :: "reply \<Rightarrow> string option" where
  "generate_sql posted =
     (case generate_sql_try posted of Inr query \<Rightarrow> query | Inl e \<Rightarrow> None)"

subsection \<open>run_agent of the SQL agent\<close>

text \<open>
  The body of the \<open>try\<close> block of \<open>run_agent\<close>, given the generated query: the events so
  far, and whether the block ended or raised. The gateway maps the posted query to its
  reply (the agent identifier posted with it is the constant \<open>"Database Guardian"\<close>).
\<close>

definition sql_validate_try :: "(string \<Rightarrow> reply) \<Rightarrow> (string \<Rightarrow> db_outcome) \<Rightarrow> string
    \<Rightarrow> event list \<times> (py_exn + unit)" where
  "sql_validate_try gateway database sql_query =
     (case gateway sql_query of
        Inl e \<Rightarrow> ([Validate sql_query (Inl e)], Inl e)
      | Inr validation_response \<Rightarrow>
          if status_code validation_response = 200 then
            (case execute_query database sql_query of
               Inl e \<Rightarrow>
                 ([Validate sql_query (Inr validation_response), Execute sql_query (Inl e)], Inl e)
             | Inr results \<Rightarrow>
                 ([Validate sql_query (Inr validation_response), Execute sql_query (Inr results)],
                  Inr ()))
          else if status_code validation_response = 403 then
            ([Validate sql_query (Inr validation_response)],
             and_then (response_json validation_response) (\<lambda>body.
             and_then (py_item body ''detail'') (\<lambda>detail. Inr ())))
          else ([Validate sql_query (Inr validation_response)], Inr ()))"

text \<open>
  \<open>run_agent(task_intent)\<close>: no query (\<open>None\<close> or the empty string) ends the run; the
  \<open>except Exception\<close> clause ends it normally after any exception of the block.
\<close>

definition sql_run_agent :: "reply \<Rightarrow> (string \<Rightarrow> reply) \<Rightarrow> (string \<Rightarrow> db_outcome) \<Rightarrow> string
    \<Rightarrow> event list \<times> (py_exn + unit)" where
  "sql_run_agent bifrost gateway database task_intent =
     (case generate_sql bifrost of
        None \<Rightarrow> ([], Inr ())
      | Some sql_query \<Rightarrow>
          if sql_query = [] then ([], Inr ())
          else (fst (sql_validate_try gateway database sql_query), Inr ()))"

section \<open>The data cleaner (data_cleaner.py)\<close>

text \<open>
  \<open>s.splitlines()\<close>: the lines of \<open>s\<close>, without their line breaks; a break at the very
  end opens no further line.
\<close>

definition is_linebreak :: "char \<Rightarrow> bool" where
  "is_linebreak c = (of_char c \<in> {10, 11, 12, 13, 28, 29, 30, 133 :: nat})"

fun splitlines_from :: "string \<Rightarrow> string \<Rightarrow> string list" where
  "splitlines_from line [] = (if line = [] then [] else [line])"
| "splitlines_from line [c] = (if is_linebreak c then [line] else [line @ [c]])"
| "splitlines_from line (c # d # cs) =
     (if c = CHR 0x0D \<and> d = CHR 0x0A then line # splitlines_from [] cs
      else if is_linebreak c then line # splitlines_from [] (d # cs)
      else splitlines_from (line @ [c]) (d # cs))"

definition py_splitlines :: "string \<Rightarrow> string list" where
  "py_splitlines s = splitlines_from [] s"

subsection \<open>analyze_with_llm\<close>

definition analyze_with_llm_try :: "reply \<Rightarrow> py_exn + string" where
  "analyze_with_llm_try posted =
     and_then posted (\<lambda>response.
       if status_code response = 200 then
         and_then (response_json response) (\<lambda>resp_json. first_choice_content resp_json)
       else Inr (''Bifrost error: '' @ response_text response))"

definition analyze_with_llm :: "reply \<Rightarrow> string" where
  "analyze_with_llm posted =
     (case analyze_with_llm_try posted of
        Inr summary \<Rightarrow> summary
      | Inl e \<Rightarrow> ''Error calling Bifrost: '' @ exn_str e)"

subsection \<open>run_agent of the data cleaner\<close>

text \<open>
  The summary the data cleaner forwards. The generated transactions and the number drawn
  by \<open>random.randint(3,8)\<close> are inputs of the model.
\<close>

definition cleaner_fallback_summary :: "string \<Rightarrow> int \<Rightarrow> string" where
  "cleaner_fallback_summary transactions drawn =
     ''Analysis generated summary (LLM temporarily unavailable): Found ''
     @ show_nat (length (py_splitlines transactions))
     @ '' transactions analyzed. Flagged '' @ show_int drawn
     @ '' suspicious items including large transfers and rapid successive debits.''"

definition cleaner_summary :: "string \<Rightarrow> reply \<Rightarrow> int \<Rightarrow> string" where
  "cleaner_summary transactions bifrost drawn =
     (let summary = analyze_with_llm bifrost
      in if py_in ''Error'' summary then cleaner_fallback_summary transactions drawn
         else summary)"

text \<open>
  The body of the last \<open>try\<close> block: the post to the router (which maps the posted payload
  to its reply) and the dict returned. A Python dict is the list of its items.
\<close>

definition relay_try :: "(string \<Rightarrow> reply) \<Rightarrow> string \<Rightarrow> py_exn + (string \<times> json) list" where
  "relay_try router summary =
     and_then (router summary) (\<lambda>response.
       if status_code response = 200 then
         and_then (response_json response) (\<lambda>resp_data.
         and_then (py_item resp_data ''message'') (\<lambda>message.
         and_then (py_get resp_data ''clean_payload'' (JStr [])) (\<lambda>clean_payload.
         and_then (py_get resp_data ''target_response'' (JStr [])) (\<lambda>target_response.
           Inr [(''status'', JStr ''success''),
                (''raw_summary'', JStr summary),
                (''clean_payload_forwarded'', clean_payload),
                (''validator_report'', target_response)]))))
       else Inr [(''status'', JStr ''blocked''), (''reason'', JStr (response_text response))])"

definition cleaner_run_agent :: "string \<Rightarrow> reply \<Rightarrow> int \<Rightarrow> (string \<Rightarrow> reply) \<Rightarrow> string
    \<Rightarrow> (string \<times> json) list" where
  "cleaner_run_agent transactions bifrost drawn router task =
     (let summary = cleaner_summary transactions bifrost drawn
      in case relay_try router summary of
           Inr returned \<Rightarrow> returned
         | Inl e \<Rightarrow> [(''status'', JStr ''error''), (''reason'', JStr (exn_str e))])"

section \<open>The validator (validator.py)\<close>

subsection \<open>generate_compliance_report\<close>

definition generate_compliance_report_try :: "reply \<Rightarrow> py_exn + string" where
  "generate_compliance_report_try posted =
     and_then posted (\<lambda>response.
       if status_code response = 200 then
         and_then (response_json response) (\<lambda>resp_json. first_choice_content resp_json)
       else Inr (''Bifrost error: '' @ response_text response))"

definition generate_compliance_report :: "reply \<Rightarrow> string" where
  "generate_compliance_report posted =
     (case generate_compliance_report_try posted of
        Inr report \<Rightarrow> report
      | Inl e \<Rightarrow> ''Error generating report: '' @ exn_str e)"

subsection \<open>The static report\<close>

text \<open>
  A reading of the clock, \<open>datetime.now()\<close>, is an input of the model; \<open>strftime\<close> writes
  its fields in decimal, filled with zeros to their width (a year of four digits).
\<close>

record datetime =
  year :: nat
  month :: nat
  day :: nat
  hour :: nat
  minute :: nat
  second :: nat

definition zero_pad :: "nat \<Rightarrow> nat \<Rightarrow> string" where
  "zero_pad width n = replicate (width - length (show_nat n)) CHR ''0'' @ show_nat n"

text \<open>\<open>strftime('%Y-%m-%d %H:%M:%S')\<close> and \<open>strftime('%Y%m%d%H%M%S')\<close>.\<close>

definition strftime_datetime :: "datetime \<Rightarrow> string" where
  "strftime_datetime t =
     zero_pad 4 (year t) @ ''-'' @ zero_pad 2 (month t) @ ''-'' @ zero_pad 2 (day t) @ '' ''
     @ zero_pad 2 (hour t) @ '':'' @ zero_pad 2 (minute t) @ '':'' @ zero_pad 2 (second t)"

definition strftime_compact :: "datetime \<Rightarrow> string" where
  "strftime_compact t =
     zero_pad 4 (year t) @ zero_pad 2 (month t) @ zero_pad 2 (day t)
     @ zero_pad 2 (hour t) @ zero_pad 2 (minute t) @ zero_pad 2 (second t)"

text \<open>
  \<open>s.upper()\<close>: the small letters of ASCII and of Latin-1 become their capitals, the sharp
  s becomes \<open>SS\<close>. (The capitals of the micro sign and of y with diaeresis lie beyond code
  point 255; the model leaves these two characters as they are.)
\<close>

definition upper_char :: "char \<Rightarrow> string" where
  "upper_char c =
     (let n = (of_char c :: nat) in
        if (97 \<le> n \<and> n \<le> 122) \<or> (224 \<le> n \<and> n \<le> 254 \<and> n \<noteq> 247) then [char_of (n - 32)]
        else if n = 223 then ''SS''
        else [c])"

definition py_upper :: "string \<Rightarrow> string" where
  "py_upper s = concat (map upper_char s)"

text \<open>
  The f-string of \<open>run_agent\<close>, line by line. The clock is read twice, for the line
  \<open>Generated\<close> and for the report identifier.
\<close>

definition validator_fallback_report :: "datetime \<Rightarrow> string \<Rightarrow> datetime \<Rightarrow> string" where
  "validator_fallback_report now_generated format_type now_report_id =
     join newline
       ['''',
        ''FINANCIAL COMPLIANCE REPORT'',
        ''==========================='',
        ''Generated: '' @ strftime_datetime now_generated,
        ''Report Type: '' @ py_upper format_type,
        '''',
        ''EXECUTIVE SUMMARY'',
        ''-----------------'',
        ''The analysis identified several transactions requiring review based on '',
        ''the anonymized suspicious activity summary provided by the Data Cleaner agent.'',
        '''',
        ''KEY FINDINGS'',
        ''------------'',
        ''1. Large Value Transactions: Multiple transactions exceeding $10,000 flagged'',
        ''2. Pattern Analysis: Unusual timing and frequency detected'',
        ''3. Risk Categories: High-value transfers, offshore destinations'',
        '''',
        ''RISK ASSESSMENT'',
        ''---------------'',
        ''- HIGH: Wire transfers over $25,000 to unfamiliar recipients'',
        ''- MEDIUM: Multiple large debits within short timeframes'',
        ''- LOW: Standard merchant transactions'',
        '''',
        ''RECOMMENDED ACTIONS'',
        ''-------------------'',
        ''1. Require secondary authorization for transactions over $10,000'',
        ''2. Verify source of funds for offshore transfers'',
        ''3. Implement 24-hour hold for wire transfers exceeding $25,000'',
        ''4. File Suspicious Activity Report (SAR) for ACC-OFFSHORE transfers'',
        '''',
        ''COMPLIANCE NOTES'',
        ''---------------'',
        ''All data has been anonymized in compliance with PII protection requirements.'',
        ''This report is suitable for regulatory submission.'',
        '''',
        ''Report ID: RPT-'' @ strftime_compact now_report_id,
        ''        '']"

subsection \<open>run_agent of the validator\<close>

text \<open>
  \<open>run_agent(clean_summary, format_type)\<close>. The summary (\<open>None\<close> stands for the sample
  summary) only enters the prompt posted to the generation endpoint, whose reply is an
  input of the model.
\<close>

definition validator_report :: "reply \<Rightarrow> datetime \<Rightarrow> string \<Rightarrow> datetime \<Rightarrow> string" where
  "validator_report bifrost now_generated format_type now_report_id =
     (let report = generate_compliance_report bifrost
      in if py_in ''Error'' report \<or> py_in ''error'' report
         then validator_fallback_report now_generated format_type now_report_id
         else report)"

definition validator_run_agent :: "reply \<Rightarrow> datetime \<Rightarrow> datetime \<Rightarrow> string option \<Rightarrow> string
    \<Rightarrow> (string \<times> json) list" where
  "validator_run_agent bifrost now_generated now_report_id clean_summary format_type =
     [(''status'', JStr ''success''),
      (''report'', JStr (validator_report bifrost now_generated format_type now_report_id))]"

section \<open>Notions the properties are stated with\<close>

text \<open>The gateway allows: its reply is a response with status 200.\<close>

definition is_allow :: "reply \<Rightarrow> bool" where
  "is_allow posted = (case posted of Inr response \<Rightarrow> status_code response = 200 | Inl e \<Rightarrow> False)"

text \<open>The texts a run executed, in order.\<close>

fun executed :: "event list \<Rightarrow> string list" where
  "executed [] = []"
| "executed (Execute t r # es) = t # executed es"
| "executed (Validate t r # es) = executed es"

text \<open>The text of each call of a run, in order, without what came back.\<close>

fun calls :: "event list \<Rightarrow> (bool \<times> string) list" where
  "calls [] = []"
| "calls (Execute t r # es) = (True, t) # calls es"
| "calls (Validate t r # es) = (False, t) # calls es"

text \<open>
  Every execution of a run comes right after a validation that the gateway allowed, and
  the text validated there is \<open>submitted t\<close> for the text \<open>t\<close> executed. The second
  argument is the event before the list, if any.
\<close>

fun executes_only_after_allow :: "(string \<Rightarrow> string) \<Rightarrow> event option \<Rightarrow> event list \<Rightarrow> bool" where
  "executes_only_after_allow submitted before [] = True"
| "executes_only_after_allow submitted before (Validate t r # es) =
     executes_only_after_allow submitted (Some (Validate t r)) es"
| "executes_only_after_allow submitted before (Execute t r # es) =
     ((case before of
         Some (Validate t' posted) \<Rightarrow> t' = submitted t \<and> is_allow posted
       | Some (Execute t' r') \<Rightarrow> False
       | None \<Rightarrow> False)
      \<and> executes_only_after_allow submitted (Some (Execute t r)) es)"

definition same_text :: "string \<Rightarrow> string" where
  "same_text t = t"

definition read_file_prompt :: "string \<Rightarrow> string" where
  "read_file_prompt filepath = ''read file '' @ filepath"

fun json_serializable :: "sql_value \<Rightarrow> bool" where
  "json_serializable (SqlBlob b) = False"
| "json_serializable v = True"

text \<open>
  A text carries a degraded-mode marker when it says so in words: the word of the data
  cleaner's own fallback summary (\<open>unavailable\<close>) or one of the words \<open>degraded\<close> and
  \<open>fallback\<close>.
\<close>

definition degraded_markers :: "string list" where
  "degraded_markers =
     [''unavailable'', ''Unavailable'', ''UNAVAILABLE'',
      ''degraded'', ''Degraded'', ''DEGRADED'',
      ''fallback'', ''Fallback'', ''FALLBACK'']"

fun carries_any :: "string list \<Rightarrow> string \<Rightarrow> bool" where
  "carries_any [] s = False"
| "carries_any (m # ms) s = (py_in m s \<or> carries_any ms s)"

definition carries_degraded_marker :: "string \<Rightarrow> bool" where
  "carries_degraded_marker s = carries_any degraded_markers s"

subsection \<open>Sample inputs\<close>

definition gateway_down :: "string \<Rightarrow> reply" where
  "gateway_down prompt =
     Inr \<lparr>status_code = 503, response_text = ''Service Unavailable'',
          response_json = Inl (PyExn JSONDecodeError ''Expecting value: line 1 column 1 (char 0)'')\<rparr>"

definition gateway_denies :: "string \<Rightarrow> reply" where
  "gateway_denies prompt =
     Inr \<lparr>status_code = 403, response_text = [],
          response_json = Inr (JObj [(''detail'', JStr ''DROP statements are forbidden'')])\<rparr>"


definition bifrost_unreachable :: reply where
  "bifrost_unreachable = Inl (PyExn RequestException ''Connection refused'')"

definition bifrost_timed_out :: reply where
  "bifrost_timed_out = Inl (PyExn RequestException ''Read timed out'')"

definition completion :: "string \<Rightarrow> json" where
  "completion content = JObj [(''choices'', JArr [JObj [(''message'', JObj [(''content'', JStr content)])]])]"

definition bifrost_says :: "int \<Rightarrow> string \<Rightarrow> reply" where
  "bifrost_says status content =
     Inr \<lparr>status_code = status, response_text = [], response_json = Inr (completion content)\<rparr>"

definition gateway_allows :: "string \<Rightarrow> reply" where
  "gateway_allows prompt =
     Inr \<lparr>status_code = 200, response_text = [], response_json = Inr (JObj [(''status'', JStr ''ok'')])\<rparr>"

definition files_with_report :: file_system where
  "files_with_report filepath =
     (if filepath = ''report.csv'' then Inr ''id,amount''
      else Inl (PyExn OSError ''[Errno 2] No such file or directory''))"

definition orders_database :: "string \<Rightarrow> db_outcome" where
  "orders_database query =
     Result_Set (Some [''id'', ''product''])
       [[SqlInt 1, SqlText ''Laptop''], [SqlInt 2, SqlText ''Mouse'']]"

definition blob_database :: "string \<Rightarrow> db_outcome" where
  "blob_database query = Result_Set (Some [''data'']) [[SqlBlob ''ab'']]"

definition router_forwards :: "string \<Rightarrow> reply" where
  "router_forwards payload =
     Inr \<lparr>status_code = 200, response_text = [],
          response_json = Inr (JObj [(''message'', JStr ''Message routed''),
                                     (''clean_payload'', JStr ''X''),
                                     (''target_response'', JStr ''Y'')])\<rparr>"

definition monday_morning :: datetime where
  "monday_morning = \<lparr>year = 2024, month = 1, day = 15, hour = 9, minute = 3, second = 7\<rparr>"

section \<open>Properties\<close>

subsection \<open>The file-read executor\<close>

text \<open>
  C7. For every file path, the file-read executor returns the full file content when the
  read succeeds, and when the read fails in any way it returns a text that carries the
  error's text; it never propagates an exception to its caller (the result is always a
  returned value, \<open>Inr\<close>).
\<close>

theorem read_local_file_total:
  "read_local_file fs filepath =
     Inr (case fs filepath of
            Inr content \<Rightarrow> content
          | Inl e \<Rightarrow> ''Error reading file: '' @ exn_str e)"
  by (simp add: read_local_file_def open_and_read_def split: sum.split)

subsection \<open>Execution only after the gateway allowed\<close>

lemma ask_gateway_denied: "\<not> is_allow (gateway prompt) \<Longrightarrow> \<not> ask_gateway gateway prompt"
  by (auto simp: ask_gateway_def ask_gateway_try_def and_then_def is_allow_def split: sum.splits)

lemma ask_gateway_allowed: "ask_gateway gateway prompt \<Longrightarrow> is_allow (gateway prompt)"
  using ask_gateway_denied by blast

text \<open>
  C1, as the code has it. In every run, the tool is executed only right after a gateway
  call that returned status 200. In the SQL agent the text validated is the very query
  executed. In the file agent the text validated is the prompt \<open>read file\<close>, a space and
  the path; the text executed is the path.
\<close>

theorem execution_only_after_allow:
  "executes_only_after_allow read_file_prompt None
     (fst (openclaw_run_agent bifrost gateway fs task))
   \<and> executes_only_after_allow same_text None
     (fst (sql_run_agent bifrost_sql gateway_sql database task_intent))"
proof
  show "executes_only_after_allow read_file_prompt None
          (fst (openclaw_run_agent bifrost gateway fs task))"
    by (auto simp: openclaw_run_agent_def Let_def read_file_prompt_def
          ask_gateway_allowed split: sum.splits)
  show "executes_only_after_allow same_text None
          (fst (sql_run_agent bifrost_sql gateway_sql database task_intent))"
    by (auto simp: sql_run_agent_def sql_validate_try_def is_allow_def same_text_def
          split: sum.splits option.splits)
qed

text \<open>
  C1, as stated, asks for the validated text to be the executed text itself. The file
  agent, with the generation endpoint down and the task \<open>summarize report.csv\<close>, has
  \<open>read file report.csv\<close> validated and then reads \<open>report.csv\<close>.
\<close>

theorem file_agent_validates_prompt_not_path:
  "fst (openclaw_run_agent bifrost_unreachable gateway_allows files_with_report
          ''summarize report.csv'')
     = [Validate ''read file report.csv'' (gateway_allows ''read file report.csv''),
        Execute ''report.csv'' (Inr ''id,amount'')]
   \<and> \<not> executes_only_after_allow same_text None
         (fst (openclaw_run_agent bifrost_unreachable gateway_allows files_with_report
                 ''summarize report.csv''))"
  by code_simp

subsection \<open>Fail-closed\<close>

lemma openclaw_denied:
  assumes "\<forall>text. \<not> is_allow (gateway text)"
  shows "openclaw_run_agent bifrost gateway fs task =
           (case propose_action bifrost task of
              Inl e \<Rightarrow> ([], Inl e)
            | Inr action \<Rightarrow>
                if py_in ''I can only read'' action then ([], Inr ())
                else ([Validate (''read file '' @ action) (gateway (''read file '' @ action))],
                      Inr ()))"
  using assms ask_gateway_denied [of gateway]
  by (simp add: openclaw_run_agent_def Let_def split: sum.splits)

lemma sql_denied:
  assumes "\<forall>text. \<not> is_allow (gateway text)"
  shows "sql_run_agent bifrost gateway database task_intent =
           (case generate_sql bifrost of
              None \<Rightarrow> ([], Inr ())
            | Some sql_query \<Rightarrow>
                if sql_query = [] then ([], Inr ())
                else ([Validate sql_query (gateway sql_query)], Inr ()))"
proof -
  have "fst (sql_validate_try gateway database sql_query) = [Validate sql_query (gateway sql_query)]"
    for sql_query
    using assms [rule_format, of sql_query]
    by (auto simp: sql_validate_try_def is_allow_def split: sum.splits)
  then show ?thesis
    by (simp add: sql_run_agent_def split: option.splits)
qed

text \<open>
  C2. Let the gateway answer no validation call with status 200: it answers with another
  status, with a body that cannot be decoded, or the call fails in transport. Then
  \<open>ask_gateway\<close> returns \<open>False\<close>, neither agent executes anything, and a run makes the
  same calls and ends the same way as with any other gateway that allows nothing, such as
  one that answers every call with an explicit deny.
\<close>

theorem gateway_fail_closed:
  assumes "\<forall>text. \<not> is_allow (gateway text)"
      and "\<forall>text. \<not> is_allow (blocking text)"
  shows "\<not> ask_gateway gateway prompt
       \<and> executed (fst (openclaw_run_agent bifrost gateway fs task)) = []
       \<and> executed (fst (sql_run_agent bifrost_sql gateway database task_intent)) = []
       \<and> calls (fst (openclaw_run_agent bifrost gateway fs task))
           = calls (fst (openclaw_run_agent bifrost blocking fs task))
       \<and> snd (openclaw_run_agent bifrost gateway fs task)
           = snd (openclaw_run_agent bifrost blocking fs task)
       \<and> calls (fst (sql_run_agent bifrost_sql gateway database task_intent))
           = calls (fst (sql_run_agent bifrost_sql blocking database task_intent))
       \<and> snd (sql_run_agent bifrost_sql gateway database task_intent)
           = snd (sql_run_agent bifrost_sql blocking database task_intent)"
proof -
  have "\<not> ask_gateway gateway prompt"
    using assms(1) by (simp add: ask_gateway_denied)
  then show ?thesis
    by (simp add: openclaw_denied [OF assms(1)] openclaw_denied [OF assms(2)]
          sql_denied [OF assms(1)] sql_denied [OF assms(2)] split: sum.splits option.splits)
qed

theorem gateway_fail_closed_witness:
  "(\<forall>text. \<not> is_allow (gateway_down text))
   \<and> (\<forall>text. \<not> is_allow (gateway_denies text))
   \<and> \<not> ask_gateway gateway_down ''read file report.csv''
   \<and> executed (fst (openclaw_run_agent (bifrost_says 200 ''report.csv'') gateway_down
         files_with_report ''summarize report.csv'')) = []
   \<and> executed (fst (sql_run_agent (bifrost_says 200 ''SELECT id, product FROM orders'')
         gateway_down orders_database ''Fetch all orders'')) = []
   \<and> calls (fst (openclaw_run_agent (bifrost_says 200 ''report.csv'') gateway_down
         files_with_report ''summarize report.csv''))
       = calls (fst (openclaw_run_agent (bifrost_says 200 ''report.csv'') gateway_denies
         files_with_report ''summarize report.csv''))
   \<and> calls (fst (sql_run_agent (bifrost_says 200 ''SELECT id, product FROM orders'')
         gateway_down orders_database ''Fetch all orders''))
       = calls (fst (sql_run_agent (bifrost_says 200 ''SELECT id, product FROM orders'')
         gateway_denies orders_database ''Fetch all orders''))"
proof -
  have down: "\<forall>text. \<not> is_allow (gateway_down text)"
    by (simp add: gateway_down_def is_allow_def)
  have denies: "\<forall>text. \<not> is_allow (gateway_denies text)"
    by (simp add: gateway_denies_def is_allow_def)
  show ?thesis
    using gateway_fail_closed [OF down denies, of "''read file report.csv''"
        "bifrost_says 200 ''report.csv''" files_with_report "''summarize report.csv''"
        "bifrost_says 200 ''SELECT id, product FROM orders''" orders_database
        "''Fetch all orders''"] down denies
    by simp
qed

subsection \<open>The fallback extraction of the file agent\<close>

lemma fallback_report_csv: "fallback_action ''summarize report.csv'' = Inr ''report.csv''"
  by code_simp

text \<open>
  When the file agent takes its fallback: the post raised, or the body could not be
  decoded, or the content of the first choice could not be reached or is empty after
  stripping. The status code plays no part.
\<close>

lemma bifrost_action_raises_iff:
  "(\<exists>e. bifrost_action posted = Inl e) \<longleftrightarrow>
     (case posted of
        Inl e \<Rightarrow> True
      | Inr response \<Rightarrow>
          (case response_json response of
             Inl e \<Rightarrow> True
           | Inr body \<Rightarrow>
               (case first_choice_content body of Inl e \<Rightarrow> True | Inr action \<Rightarrow> action = [])))"
  by (simp add: bifrost_action_def and_then_def split: sum.splits)

text \<open>
  C3, as the code has it. When the generation request fails in transport, or its body
  cannot be decoded, or the content field is missing or empty (that is, when the \<open>try\<close>
  block of the file agent raises), and the task is \<open>summarize report.csv\<close>, the proposed
  action is exactly \<open>report.csv\<close>.
\<close>

theorem fallback_yields_report_csv:
  "bifrost_action posted = Inl e \<Longrightarrow>
     propose_action posted ''summarize report.csv'' = Inr ''report.csv''"
  by (simp add: propose_action_def fallback_report_csv)

theorem fallback_yields_report_csv_witness:
  "bifrost_action bifrost_unreachable = Inl (PyExn RequestException ''Connection refused'')
   \<and> propose_action bifrost_unreachable ''summarize report.csv'' = Inr ''report.csv''"
proof -
  have raised: "bifrost_action bifrost_unreachable = Inl (PyExn RequestException ''Connection refused'')"
    by (simp add: bifrost_action_def bifrost_unreachable_def and_then_def)
  from fallback_yields_report_csv [OF raised] raised show ?thesis
    by simp
qed

text \<open>
  C3, as stated, counts a non-success status among the failures. The file agent does not
  read the status: a reply with status 500 whose body carries the content \<open>notes.txt\<close>
  makes \<open>notes.txt\<close> the proposed action, and no fallback is taken.
\<close>

theorem status_500_with_content_is_no_fallback:
  "propose_action (bifrost_says 500 ''notes.txt'') ''summarize report.csv'' = Inr ''notes.txt''
   \<and> propose_action (bifrost_says 500 ''notes.txt'') ''summarize report.csv'' \<noteq> Inr ''report.csv''"
  by code_simp

text \<open>
  C4. The claim is that the generate step never raises, whatever the task. With the
  generation endpoint down and the task a single space, the pattern finds nothing, the
  task is not empty, \<open>task.split()\<close> is the empty list and \<open>[-1]\<close> raises \<open>IndexError\<close>
  inside the \<open>except\<close> clause: the exception leaves \<open>run_agent\<close>. The empty task is
  guarded (\<open>if task else ""\<close>) and yields the empty action.
\<close>

theorem fallback_raises_on_blank_task:
  "propose_action bifrost_unreachable '' '' = Inl (PyExn IndexError ''list index out of range'')
   \<and> openclaw_run_agent bifrost_unreachable gateway_allows files_with_report '' ''
       = ([], Inl (PyExn IndexError ''list index out of range''))
   \<and> propose_action bifrost_unreachable [] = Inr []"
  by code_simp

subsection \<open>execute_query\<close>

lemma all_or_raise_Inr:
  "list_all (\<lambda>r. \<exists>v. r = Inr v) rs \<Longrightarrow> \<exists>vs. all_or_raise rs = Inr vs \<and> length vs = length rs"
  by (induction rs) (auto simp: and_then_def)

lemma dumps_item_Inr: "json_serializable (snd kv) \<Longrightarrow> \<exists>t. dumps_item kv = Inr t"
  by (cases "snd kv") (auto simp: dumps_item_def and_then_def)

lemma dict_set_values: "v \<in> snd ` set (dict_set d k w) \<Longrightarrow> v = w \<or> v \<in> snd ` set d"
  by (induction d k w rule: dict_set.induct) (auto split: if_splits)

lemma foldl_dict_set_values:
  "v \<in> snd ` set (foldl (\<lambda>d (k, v). dict_set d k v) d pairs)
     \<Longrightarrow> v \<in> snd ` set d \<or> v \<in> snd ` set pairs"
proof (induction pairs arbitrary: d)
  case Nil
  then show ?case by simp
next
  case (Cons p pairs)
  obtain k w where p: "p = (k, w)" by (cases p)
  from Cons.prems have "v \<in> snd ` set (foldl (\<lambda>d (k, v). dict_set d k v) (dict_set d k w) pairs)"
    by (simp add: p)
  then have "v \<in> snd ` set (dict_set d k w) \<or> v \<in> snd ` set pairs"
    by (rule Cons.IH)
  then show ?case
    using dict_set_values [of v d k w] by (auto simp: p)
qed

lemma py_dict_values: "v \<in> snd ` set (py_dict pairs) \<Longrightarrow> v \<in> snd ` set pairs"
  using foldl_dict_set_values [of v "[]" pairs] by (simp add: py_dict_def)

lemma dumps_row_Inr:
  assumes "list_all json_serializable row"
  shows "\<exists>t. dumps_row (py_dict (zip columns row)) = Inr t"
proof -
  have "\<forall>kv \<in> set (py_dict (zip columns row)). json_serializable (snd kv)"
  proof
    fix kv assume "kv \<in> set (py_dict (zip columns row))"
    then have "snd kv \<in> snd ` set (zip columns row)"
      using py_dict_values [of "snd kv" "zip columns row"] by force
    then have "snd kv \<in> set row"
      by (auto dest: set_zip_rightD)
    with assms show "json_serializable (snd kv)"
      by (simp add: list_all_iff)
  qed
  then have "list_all (\<lambda>r. \<exists>v. r = Inr v) (map dumps_item (py_dict (zip columns row)))"
    by (auto simp: list_all_iff dest: dumps_item_Inr)
  then obtain parts where "all_or_raise (map dumps_item (py_dict (zip columns row))) = Inr parts"
    using all_or_raise_Inr by blast
  then show ?thesis
    by (simp add: dumps_row_def and_then_def)
qed

lemma json_dumps_Inr:
  assumes "list_all (list_all json_serializable) results"
  shows "\<exists>t. json_dumps (format_results columns results) = Inr t"
proof -
  have "list_all (\<lambda>r. \<exists>v. r = Inr v) (map dumps_row (format_results columns results))"
  proof -
    have "\<exists>v. dumps_row (py_dict (zip columns row)) = Inr v" if "row \<in> set results" for row
      using that assms dumps_row_Inr [of row columns] by (simp add: list_all_iff)
    then show ?thesis
      by (simp add: list_all_iff format_results_def)
  qed
  then obtain parts where "all_or_raise (map dumps_row (format_results columns results)) = Inr parts"
    using all_or_raise_Inr by blast
  then show ?thesis
    by (simp add: json_dumps_def and_then_def)
qed

lemma dict_set_new_key: "k \<notin> fst ` set d \<Longrightarrow> dict_set d k v = d @ [(k, v)]"
  by (induction d k v rule: dict_set.induct) auto

lemma foldl_dict_set_distinct:
  "distinct (map fst (d @ pairs)) \<Longrightarrow> foldl (\<lambda>d (k, v). dict_set d k v) d pairs = d @ pairs"
proof (induction pairs arbitrary: d)
  case Nil
  then show ?case by simp
next
  case (Cons p pairs)
  obtain k w where p: "p = (k, w)" by (cases p)
  from Cons.prems have new: "k \<notin> fst ` set d" by (auto simp: p)
  from Cons.prems have "distinct (map fst ((d @ [(k, w)]) @ pairs))" by (simp add: p)
  then have "foldl (\<lambda>d (k, v). dict_set d k v) (d @ [(k, w)]) pairs = (d @ [(k, w)]) @ pairs"
    by (rule Cons.IH)
  with new show ?case by (simp add: p dict_set_new_key)
qed

lemma py_dict_distinct: "distinct (map fst pairs) \<Longrightarrow> py_dict pairs = pairs"
  using foldl_dict_set_distinct [of "[]" pairs] by (simp add: py_dict_def)

lemma py_dict_zip_distinct: "distinct columns \<Longrightarrow> py_dict (zip columns row) = zip columns row"
  by (rule py_dict_distinct) (simp add: map_fst_zip_take distinct_take)

text \<open>
  C5, as the code has it. Let the execution of a query give a result set none of whose
  values is a BLOB. With N > 0 rows, \<open>execute_query\<close> returns the JSON text
  (\<open>json.dumps\<close>, indent 2) of a sequence of exactly N row-mappings, in the order of the
  rows, each built by \<open>dict(zip(columns, row))\<close>: for distinct column names these are the
  pairs of column name and value in column order (a repeated name keeps its first place
  and takes the last value). With no row, it returns the text
  \<open>Query executed successfully. No data returned.\<close>, which is not the JSON text \<open>[]\<close> of
  the empty sequence.
\<close>

theorem execute_query_rows:
  assumes "database query = Result_Set description results"
      and "list_all (list_all json_serializable) results"
  shows "\<exists>rows dumped.
           rows = map (\<lambda>row. py_dict (zip (columns_of description) row)) results
         \<and> (distinct (columns_of description)
              \<longrightarrow> rows = map (zip (columns_of description)) results)
         \<and> length rows = length results
         \<and> json_dumps rows = Inr dumped
         \<and> json_dumps [] = Inr ''[]''
         \<and> execute_query database query =
             Inr (if results = [] then ''Query executed successfully. No data returned.''
                  else dumped)
         \<and> ''Query executed successfully. No data returned.'' \<noteq> ''[]''"
proof -
  obtain dumped where
    dumped: "json_dumps (format_results (columns_of description) results) = Inr dumped"
    using json_dumps_Inr [OF assms(2)] by blast
  have "execute_query database query =
          Inr (if results = [] then ''Query executed successfully. No data returned.''
               else dumped)"
    using dumped by (simp add: execute_query_def assms(1) Let_def)
  with dumped show ?thesis
    by (simp add: format_results_def py_dict_zip_distinct json_dumps_def)
qed

theorem execute_query_rows_witness:
  "orders_database ''SELECT id, product FROM orders''
     = Result_Set (Some [''id'', ''product''])
         [[SqlInt 1, SqlText ''Laptop''], [SqlInt 2, SqlText ''Mouse'']]
   \<and> list_all (list_all json_serializable)
         [[SqlInt 1, SqlText ''Laptop''], [SqlInt 2, SqlText ''Mouse'']]
   \<and> distinct [''id'', ''product'']
   \<and> (\<exists>dumped.
         json_dumps [[(''id'', SqlInt 1), (''product'', SqlText ''Laptop'')],
                     [(''id'', SqlInt 2), (''product'', SqlText ''Mouse'')]] = Inr dumped
       \<and> execute_query orders_database ''SELECT id, product FROM orders'' = Inr dumped)"
proof -
  have db: "orders_database ''SELECT id, product FROM orders''
     = Result_Set (Some [''id'', ''product''])
         [[SqlInt 1, SqlText ''Laptop''], [SqlInt 2, SqlText ''Mouse'']]"
    by (simp add: orders_database_def)
  have ok: "list_all (list_all json_serializable)
         [[SqlInt 1, SqlText ''Laptop''], [SqlInt 2, SqlText ''Mouse'']]"
    by simp
  show ?thesis
    using execute_query_rows [of orders_database "''SELECT id, product FROM orders''"
        "Some [''id'', ''product'']" "[[SqlInt 1, SqlText ''Laptop''], [SqlInt 2, SqlText ''Mouse'']]"]
      db ok
    by (auto simp: columns_of_def py_dict_def)
qed

text \<open>
  C5, as stated, holds of every query that returns rows. A result set of one row whose
  value is a BLOB makes \<open>json.dumps\<close> raise \<open>TypeError\<close>, which the \<open>except\<close> clause of
  \<open>execute_query\<close> turns into an error text: no sequence of row-mappings is returned.
\<close>

theorem blob_row_gives_database_error:
  "blob_database ''SELECT data FROM files'' = Result_Set (Some [''data'']) [[SqlBlob ''ab'']]
   \<and> execute_query blob_database ''SELECT data FROM files''
       = Inr ''Database Error: Object of type bytes is not JSON serializable''"
  by code_simp

subsection \<open>The message relay\<close>

text \<open>
  C6, as the code has it. When the router replies with status 200 and a JSON object that
  carries \<open>message\<close>, \<open>clean_payload\<close> = x and \<open>target_response\<close> = y, the data cleaner
  returns the dict of four items: status \<open>success\<close>, \<open>raw_summary\<close> (the summary it sent),
  \<open>clean_payload_forwarded\<close> = x and \<open>validator_report\<close> = y.
\<close>

theorem relay_success_result:
  assumes "router (cleaner_summary transactions bifrost drawn) = Inr response"
      and "status_code response = 200"
      and "response_json response = Inr (JObj items)"
      and "map_of items ''message'' = Some m"
      and "map_of items ''clean_payload'' = Some x"
      and "map_of items ''target_response'' = Some y"
  shows "cleaner_run_agent transactions bifrost drawn router task =
           [(''status'', JStr ''success''),
            (''raw_summary'', JStr (cleaner_summary transactions bifrost drawn)),
            (''clean_payload_forwarded'', x),
            (''validator_report'', y)]"
  using assms by (simp add: cleaner_run_agent_def relay_try_def and_then_def Let_def)

theorem relay_success_result_witness:
  "cleaner_run_agent ''t1'' (bifrost_says 200 ''Two large transfers'') 5 router_forwards
       ''Analyze transaction logs''
     = [(''status'', JStr ''success''),
        (''raw_summary'', JStr ''Two large transfers''),
        (''clean_payload_forwarded'', JStr ''X''),
        (''validator_report'', JStr ''Y'')]"
proof -
  have summary: "cleaner_summary ''t1'' (bifrost_says 200 ''Two large transfers'') 5
      = ''Two large transfers''"
    by code_simp
  have routed: "router_forwards (cleaner_summary ''t1'' (bifrost_says 200 ''Two large transfers'') 5)
      = Inr \<lparr>status_code = 200, response_text = [],
             response_json = Inr (JObj [(''message'', JStr ''Message routed''),
                                        (''clean_payload'', JStr ''X''),
                                        (''target_response'', JStr ''Y'')])\<rparr>"
    by (simp add: router_forwards_def)
  show ?thesis
    using relay_success_result [of router_forwards "''t1''"
        "bifrost_says 200 ''Two large transfers''" 5
        "\<lparr>status_code = 200, response_text = [],
          response_json = Inr (JObj [(''message'', JStr ''Message routed''),
                                     (''clean_payload'', JStr ''X''),
                                     (''target_response'', JStr ''Y'')])\<rparr>"
        "[(''message'', JStr ''Message routed''),
          (''clean_payload'', JStr ''X''), (''target_response'', JStr ''Y'')]"
        "JStr ''Message routed''" "JStr ''X''" "JStr ''Y''" "''Analyze transaction logs''"]
      routed summary
    by simp
qed

text \<open>
  C6, as stated, gives the result exactly three items. The dict returned has a fourth,
  \<open>raw_summary\<close>, so it is not the dict of the claim.
\<close>

theorem relay_result_has_raw_summary:
  "map_of (cleaner_run_agent ''t1'' (bifrost_says 200 ''Two large transfers'') 5 router_forwards
             ''Analyze transaction logs'')
     \<noteq> map_of [(''status'', JStr ''success''),
                (''clean_payload_forwarded'', JStr ''X''),
                (''validator_report'', JStr ''Y'')]"
proof
  assume "map_of (cleaner_run_agent ''t1'' (bifrost_says 200 ''Two large transfers'') 5
                    router_forwards ''Analyze transaction logs'')
     = map_of [(''status'', JStr ''success''),
               (''clean_payload_forwarded'', JStr ''X''),
               (''validator_report'', JStr ''Y'')]"
  then have "map_of (cleaner_run_agent ''t1'' (bifrost_says 200 ''Two large transfers'') 5
                       router_forwards ''Analyze transaction logs'') ''raw_summary''
     = map_of [(''status'', JStr ''success''),
               (''clean_payload_forwarded'', JStr ''X''),
               (''validator_report'', JStr ''Y'')] ''raw_summary''"
    by simp
  then show False by code_simp
qed

subsection \<open>The fallback reports\<close>

lemma starts_with_append: "starts_with sub (sub @ rest)"
  by (induction sub) auto

lemma py_in_append: "py_in sub s \<Longrightarrow> py_in sub (pre @ s)"
  by (induction pre) auto

lemma py_in_middle: "py_in sub (pre @ sub @ rest)"
proof (rule py_in_append)
  show "py_in sub (sub @ rest)"
    using starts_with_append [of sub rest] by (cases "sub @ rest") auto
qed

text \<open>The fallback summary of the data cleaner says that the model was unavailable.\<close>

lemma cleaner_fallback_is_marked:
  "carries_degraded_marker (cleaner_fallback_summary transactions drawn)"
proof -
  have "cleaner_fallback_summary transactions drawn =
          ''Analysis generated summary (LLM temporarily '' @ ''unavailable''
          @ (''): Found '' @ show_nat (length (py_splitlines transactions))
             @ '' transactions analyzed. Flagged '' @ show_int drawn
             @ '' suspicious items including large transfers and rapid successive debits.'')"
    by (simp add: cleaner_fallback_summary_def)
  then have "py_in ''unavailable'' (cleaner_fallback_summary transactions drawn)"
    by (simp only: py_in_middle)
  then show ?thesis
    by (simp add: carries_degraded_marker_def degraded_markers_def)
qed

lemma monday_morning_stamps:
  "strftime_datetime monday_morning = ''2024-01-15 09:03:07''"
  "strftime_compact monday_morning = ''20240115090307''"
  "py_upper ''detailed'' = ''DETAILED''"
  by code_simp+

text \<open>
  C8. The claim is that every locally synthesized fallback output carries an explicit
  degraded-mode marker. The data cleaner's does (\<open>LLM temporarily unavailable\<close>). The
  validator's does not: with the generation endpoint down, it returns status \<open>success\<close>
  and the static report, which carries no such marker.
\<close>

theorem validator_fallback_is_unmarked:
  "validator_run_agent bifrost_unreachable monday_morning monday_morning None ''detailed'' =
     [(''status'', JStr ''success''),
      (''report'', JStr (validator_fallback_report monday_morning ''detailed'' monday_morning))]
   \<and> \<not> carries_degraded_marker
         (validator_fallback_report monday_morning ''detailed'' monday_morning)
   \<and> carries_degraded_marker (cleaner_summary ''t1'' bifrost_unreachable 5)"
proof -
  have "generate_compliance_report bifrost_unreachable = ''Error generating report: Connection refused''"
    by (simp add: generate_compliance_report_def generate_compliance_report_try_def
          bifrost_unreachable_def and_then_def)
  then have run: "validator_run_agent bifrost_unreachable monday_morning monday_morning None ''detailed'' =
     [(''status'', JStr ''success''),
      (''report'', JStr (validator_fallback_report monday_morning ''detailed'' monday_morning))]"
    by (simp add: validator_run_agent_def validator_report_def)
  have "analyze_with_llm bifrost_unreachable = ''Error calling Bifrost: Connection refused''"
    by (simp add: analyze_with_llm_def analyze_with_llm_try_def bifrost_unreachable_def and_then_def)
  then have "cleaner_summary ''t1'' bifrost_unreachable 5 = cleaner_fallback_summary ''t1'' 5"
    by (simp add: cleaner_summary_def)
  then have marked: "carries_degraded_marker (cleaner_summary ''t1'' bifrost_unreachable 5)"
    by (simp only: cleaner_fallback_is_marked)
  have "\<not> carries_degraded_marker
         (validator_fallback_report monday_morning ''detailed'' monday_morning)"
    by (simp add: carries_degraded_marker_def degraded_markers_def validator_fallback_report_def
          monday_morning_stamps newline_def)
  with run marked show ?thesis
    by simp
qed

text \<open>
  C9, as the code has it. No fallback depends on how the generation failed. The proposed
  action of the file agent's fallback is a function of the task alone. The fallback
  summary of the data cleaner is a function of the transactions and of the number drawn
  by \<open>random.randint(3,8)\<close>; the fallback report of the validator is a function of the
  format type and of the two readings of the clock.
\<close>

theorem fallback_independent_of_failure:
  "(bifrost_action failed = Inl e \<and> bifrost_action failed' = Inl e'
      \<longrightarrow> propose_action failed task = propose_action failed' task
          \<and> propose_action failed task = fallback_action task)
   \<and> (py_in ''Error'' (analyze_with_llm failed) \<and> py_in ''Error'' (analyze_with_llm failed')
      \<longrightarrow> cleaner_summary transactions failed drawn = cleaner_summary transactions failed' drawn
          \<and> cleaner_summary transactions failed drawn
              = cleaner_fallback_summary transactions drawn)
   \<and> ((py_in ''Error'' (generate_compliance_report failed)
          \<or> py_in ''error'' (generate_compliance_report failed))
       \<and> (py_in ''Error'' (generate_compliance_report failed')
          \<or> py_in ''error'' (generate_compliance_report failed'))
      \<longrightarrow> validator_report failed now1 format_type now2
            = validator_report failed' now1 format_type now2
          \<and> validator_report failed now1 format_type now2
              = validator_fallback_report now1 format_type now2)"
  by (simp add: propose_action_def cleaner_summary_def validator_report_def Let_def)

theorem fallback_independent_of_failure_witness:
  "bifrost_action bifrost_unreachable = Inl (PyExn RequestException ''Connection refused'')
   \<and> bifrost_action bifrost_timed_out = Inl (PyExn RequestException ''Read timed out'')
   \<and> py_in ''Error'' (analyze_with_llm bifrost_unreachable)
   \<and> py_in ''Error'' (analyze_with_llm bifrost_timed_out)
   \<and> py_in ''Error'' (generate_compliance_report bifrost_unreachable)
   \<and> py_in ''Error'' (generate_compliance_report bifrost_timed_out)
   \<and> propose_action bifrost_unreachable ''summarize report.csv''
       = propose_action bifrost_timed_out ''summarize report.csv''
   \<and> cleaner_summary ''t1'' bifrost_unreachable 5 = cleaner_summary ''t1'' bifrost_timed_out 5
   \<and> validator_report bifrost_unreachable monday_morning ''detailed'' monday_morning
       = validator_report bifrost_timed_out monday_morning ''detailed'' monday_morning"
proof -
  have 1: "bifrost_action bifrost_unreachable = Inl (PyExn RequestException ''Connection refused'')"
    and 2: "bifrost_action bifrost_timed_out = Inl (PyExn RequestException ''Read timed out'')"
    by (simp_all add: bifrost_action_def bifrost_unreachable_def bifrost_timed_out_def and_then_def)
  have 3: "py_in ''Error'' (analyze_with_llm bifrost_unreachable)"
    and 4: "py_in ''Error'' (analyze_with_llm bifrost_timed_out)"
    by (simp_all add: analyze_with_llm_def analyze_with_llm_try_def bifrost_unreachable_def
          bifrost_timed_out_def and_then_def)
  have 5: "py_in ''Error'' (generate_compliance_report bifrost_unreachable)"
    and 6: "py_in ''Error'' (generate_compliance_report bifrost_timed_out)"
    by (simp_all add: generate_compliance_report_def generate_compliance_report_try_def
          bifrost_unreachable_def bifrost_timed_out_def and_then_def)
  show ?thesis
    using fallback_independent_of_failure
            [of bifrost_unreachable "PyExn RequestException ''Connection refused''"
                bifrost_timed_out "PyExn RequestException ''Read timed out''"
                "''summarize report.csv''" "''t1''" 5 monday_morning "''detailed''" monday_morning]
      1 2 3 4 5 6
    by simp
qed

text \<open>
  C9, as stated, has no randomness anywhere in the fallback path. On the same failed
  input, the data cleaner's fallback summary differs with the number drawn.
\<close>

theorem cleaner_fallback_depends_on_draw:
  "cleaner_summary ''t1'' bifrost_unreachable 3 \<noteq> cleaner_summary ''t1'' bifrost_unreachable 4"
  by code_simp

subsection \<open>Failure detected by substring\<close>

lemma py_strip_no_leading_space:
  assumes "py_strip s = c # cs"
  shows "\<not> is_space c"
proof -
  define t where "t = dropWhile is_space s"
  have "rev t = takeWhile is_space (rev t) @ dropWhile is_space (rev t)"
    by simp
  then have "rev (rev t) = rev (takeWhile is_space (rev t) @ dropWhile is_space (rev t))"
    by simp
  then have "t = rev (dropWhile is_space (rev t)) @ rev (takeWhile is_space (rev t))"
    by (simp only: rev_rev_ident rev_append)
  with assms have t: "t = (c # cs) @ rev (takeWhile is_space (rev t))"
    by (simp add: py_strip_def t_def)
  then have "t \<noteq> []" and "hd t = c"
    by (metis append_Cons list.distinct(1), metis append_Cons list.sel(1))
  then show ?thesis
    using hd_dropWhile [of is_space s] by (simp add: t_def)
qed

lemma first_choice_content_stripped:
  "first_choice_content body = Inr report \<Longrightarrow> \<exists>s. report = py_strip s"
  by (auto simp: first_choice_content_def and_then_def split: sum.splits
        elim: py_strip_method.elims)

lemma fallback_report_starts_with_newline:
  "\<exists>rest. validator_fallback_report now1 format_type now2 = CHR 0x0A # rest"
  by (simp add: validator_fallback_report_def newline_def)

lemma fallback_report_not_stripped:
  "validator_fallback_report now1 format_type now2 \<noteq> py_strip s"
proof
  assume eq: "validator_fallback_report now1 format_type now2 = py_strip s"
  obtain rest where "validator_fallback_report now1 format_type now2 = CHR 0x0A # rest"
    using fallback_report_starts_with_newline by blast
  with eq have "py_strip s = CHR 0x0A # rest" by simp
  then have "\<not> is_space (CHR 0x0A)" by (rule py_strip_no_leading_space)
  then show False by (simp add: is_space_def)
qed

lemma content_of_completion: "first_choice_content (completion c) = Inr (py_strip c)"
  by (simp add: first_choice_content_def completion_def and_then_def)

text \<open>
  C10. The validator detects a failed generation by the substrings \<open>Error\<close> and \<open>error\<close>
  of the text it got. So whenever the generation endpoint answers with status 200 and a
  report that mentions one of them, the validator returns status \<open>success\<close> with the
  static report in place of the model's report, and the two differ. The witness below is
  such a report.
\<close>

theorem genuine_report_with_error_is_discarded:
  assumes "bifrost = Inr response"
      and "status_code response = 200"
      and "response_json response = Inr body"
      and "first_choice_content body = Inr report"
      and "py_in ''Error'' report \<or> py_in ''error'' report"
  shows "generate_compliance_report bifrost = report
       \<and> validator_run_agent bifrost now1 now2 clean_summary format_type =
           [(''status'', JStr ''success''),
            (''report'', JStr (validator_fallback_report now1 format_type now2))]
       \<and> validator_fallback_report now1 format_type now2 \<noteq> report"
proof -
  have gen: "generate_compliance_report bifrost = report"
    using assms(1-4)
    by (simp add: generate_compliance_report_def generate_compliance_report_try_def and_then_def)
  obtain s where "report = py_strip s"
    using first_choice_content_stripped [OF assms(4)] by blast
  then have "validator_fallback_report now1 format_type now2 \<noteq> report"
    by (simp add: fallback_report_not_stripped)
  with gen assms(5) show ?thesis
    by (auto simp: validator_run_agent_def validator_report_def Let_def)
qed

theorem genuine_report_with_error_is_discarded_witness:
  "py_in ''error'' ''No error was found in 12 transfers.''
   \<and> generate_compliance_report (bifrost_says 200 ''No error was found in 12 transfers.'')
       = ''No error was found in 12 transfers.''
   \<and> validator_run_agent (bifrost_says 200 ''No error was found in 12 transfers.'')
        monday_morning monday_morning None ''detailed'' =
           [(''status'', JStr ''success''),
            (''report'', JStr (validator_fallback_report monday_morning ''detailed'' monday_morning))]
   \<and> validator_fallback_report monday_morning ''detailed'' monday_morning
        \<noteq> ''No error was found in 12 transfers.''"
proof -
  have strip: "py_strip ''No error was found in 12 transfers.''
      = ''No error was found in 12 transfers.''"
    by code_simp
  have found: "py_in ''error'' ''No error was found in 12 transfers.''"
    by code_simp
  have content: "first_choice_content (completion ''No error was found in 12 transfers.'')
      = Inr ''No error was found in 12 transfers.''"
    by (simp only: content_of_completion strip)
  have posted: "bifrost_says 200 ''No error was found in 12 transfers.''
      = Inr \<lparr>status_code = 200, response_text = [],
             response_json = Inr (completion ''No error was found in 12 transfers.'')\<rparr>"
    by (simp add: bifrost_says_def)
  show ?thesis
    using genuine_report_with_error_is_discarded
            [OF posted _ _ content, of monday_morning monday_morning None "''detailed''"] found
    by simp
qed

end
